theory Spec2Isabelle
  imports Main "HOL-Library.Sublist" "HOL-Library.Multiset"
begin

section \<open>The anagram game of \<open>flask_vocab.py\<close>\<close>

text \<open>
  The module \<open>flask_vocab.py\<close> holds the three request handlers of the game:
  \<open>index\<close> starts a game, \<open>check\<close> handles a submitted word and
  \<open>keep_going\<close> answers the keystroke query. The modules it imports
  (\<open>letterbag\<close>, \<open>vocab\<close>, \<open>jumble\<close>, \<open>config\<close>) are not part of the
  sources at hand. The handlers are embedded with these collaborators as parameters;
  \<open>LetterBag\<close> and \<open>Vocab\<close> are also given a concrete model that follows the
  specification, used wherever a statement is about them and for evaluation.
\<close>

subsection \<open>Errors\<close>

datatype error = KeyError | ValueError | TypeError | AssertionError
  | ConfigurationError | InvalidArgument

subsection \<open>LetterBag\<close>

text \<open>
  Modelled from the spec: the class \<open>LetterBag\<close> of \<open>src/letterbag.py\<close>, which
  is missing. The specification describes it as a mapping from character to occurrence
  count, built from a string, with a containment query that compares, for every character
  of the candidate, the candidate's count with the bag's count.
\<close>

type_synonym letterbag = "char \<rightharpoonup> nat"

definition bag_count :: "letterbag \<Rightarrow> char \<Rightarrow> nat" where
  "bag_count m c = (case m c of None \<Rightarrow> 0 | Some n \<Rightarrow> n)"

definition bag_add :: "char \<Rightarrow> letterbag \<Rightarrow> letterbag" where
  "bag_add c m = m(c \<mapsto> Suc (bag_count m c))"

definition LetterBag :: "string \<Rightarrow> letterbag" where
  "LetterBag s = fold bag_add s Map.empty"

definition contains :: "letterbag \<Rightarrow> string \<Rightarrow> bool" where
  "contains self candidate =
     list_all (\<lambda>c. bag_count (LetterBag candidate) c \<le> bag_count self c) candidate"

subsection \<open>Vocab\<close>

text \<open>
  Modelled from the spec: the class \<open>Vocab\<close> of \<open>src/vocab.py\<close>, which is
  missing. The specification describes an ordered sequence of unique words, built from a
  source list with duplicates removed in order of first occurrence, failing on an empty
  result; an exact-match membership test that answers false on a missing word; and the
  stored list.
\<close>

datatype Vocab = Vocab (words: "string list")

fun dedup :: "'a list \<Rightarrow> 'a list" where
  "dedup [] = []"
| "dedup (x # xs) = x # dedup (filter (\<lambda>y. y \<noteq> x) xs)"

definition Vocab_construct :: "string list \<Rightarrow> error + Vocab" where
  "Vocab_construct ws =
     (let us = dedup ws in if us = [] then Inl ConfigurationError else Inr (Vocab us))"

definition has :: "Vocab \<Rightarrow> string option \<Rightarrow> bool" where
  "has v word = (case word of None \<Rightarrow> False | Some w \<Rightarrow> w \<in> set (words v))"

definition as_list :: "Vocab \<Rightarrow> string list" where
  "as_list v = words v"

subsection \<open>The module's globals and collaborators\<close>

text \<open>
  What the handlers read from outside: the shared vocabulary object \<open>WORDS\<close>
  through its two methods, the containment query \<open>LetterBag(jumble).contains(text)\<close>,
  the function \<open>jumbled\<close>, and the configuration values \<open>SEED\<close> (after the
  module's conversion) and \<open>CONFIG.SUCCESS_AT_COUNT\<close>. A submitted text is
  \<open>request.args.get("text", type=str)\<close>: \<open>None\<close> when the query has no such
  argument. The function \<open>jumbled\<close> stands for one invocation: unseeded, the
  real one draws from a random source.
\<close>

record app =
  WORDS_as_list :: "string list"
  WORDS_has :: "string option \<Rightarrow> bool"
  bag_contains :: "string \<Rightarrow> string option \<Rightarrow> bool"
  jumbled :: "string list \<Rightarrow> int \<Rightarrow> int option \<Rightarrow> error + string"
  SEED :: "int option"
  SUCCESS_AT_COUNT :: int

text \<open>
  The module converts the configured seed once:
  \<^verbatim>\<open>SEED = CONFIG.SEED
try:
    SEED = int(SEED)
except ValueError:
    SEED = None\<close>
  The argument is the outcome of the builtin \<open>int(CONFIG.SEED)\<close>: the integer, or
  the exception it raises. Only \<open>ValueError\<close> is caught.
\<close>

definition SEED_of :: "error + int \<Rightarrow> error + int option" where
  "SEED_of r =
     (case r of
        Inr n \<Rightarrow> Inr (Some n)
      | Inl e \<Rightarrow> if e = ValueError then Inr None else Inl e)"

text \<open>
  The seed handed to \<open>jumbled\<close>:
  \<^verbatim>\<open>seed=None if not SEED or SEED < 0 else SEED\<close>
  In Python \<open>not SEED\<close> is true for \<open>None\<close> and for the integer \<open>0\<close>.
\<close>

definition seed_arg :: "int option \<Rightarrow> int option" where
  "seed_arg S =
     (case S of
        None \<Rightarrow> None
      | Some n \<Rightarrow> if n = 0 \<or> n < 0 then None else Some n)"

subsection \<open>The session\<close>

text \<open>
  The Flask session is a dictionary with the keys \<open>"jumble"\<close>,
  \<open>"target_count"\<close> and \<open>"matches"\<close>; a key that was never set is \<open>None\<close>
  here. The list of matches holds the submitted texts as they were appended.
\<close>

record session =
  jumble :: "string option"
  target_count :: "int option"
  matches :: "string option list option"

definition new_session :: session where
  "new_session = \<lparr>jumble = None, target_count = None, matches = None\<rparr>"

text \<open>\<open>flask.session.get("matches", [])\<close>: the empty list when the key is not set.\<close>

definition get_matches :: "session \<Rightarrow> string option list" where
  "get_matches s = (case matches s of None \<Rightarrow> [] | Some m \<Rightarrow> m)"

subsection \<open>Starting a game: \<open>index\<close>\<close>

text \<open>
  The handler writes the session key by key, so an exception leaves behind what was
  written before it: \<open>Inl (e, s')\<close> is the exception \<open>e\<close> raised on the session
  \<open>s'\<close>, \<open>Inr s'\<close> the session of a start that rendered the page.
\<close>

definition index :: "app \<Rightarrow> session \<Rightarrow> error \<times> session + session" where
  "index a s =
     (let vocab = WORDS_as_list a;
          tc = min (int (length vocab)) (SUCCESS_AT_COUNT a);
          s1 = s\<lparr>target_count := Some tc\<rparr>
      in case jumbled a vocab tc (seed_arg (SEED a)) of
           Inl e \<Rightarrow> Inl (e, s1)
         | Inr j \<Rightarrow>
             (let s2 = s1\<lparr>jumble := Some j\<rparr>;
                  s3 = s2\<lparr>matches := Some []\<rparr>
              in if matches s3 \<noteq> Some [] then Inl (AssertionError, s3)
                 else if \<not> 0 < tc then Inl (AssertionError, s3)
                 else Inr s3))"

definition session_after :: "error \<times> session + session \<Rightarrow> session" where
  "session_after r = (case r of Inl (e, s) \<Rightarrow> s | Inr s \<Rightarrow> s)"

subsection \<open>The keystroke query: \<open>keep_going\<close>\<close>

definition keep_going :: "app \<Rightarrow> session \<Rightarrow> string option \<Rightarrow> session \<times> bool" where
  "keep_going a s text = (let matched = WORDS_has a text in (s, matched))"

subsection \<open>A submission: \<open>check\<close>\<close>

text \<open>
  The JSON answers. The success branch answers with a message, the redirect URL and
  \<open>result = True\<close>; every other branch answers with \<open>response_data\<close>. The
  constructor names the branch that answered.
\<close>

record response_data =
  result :: bool
  redirect_url :: bool
  r_matches :: "string option list"
  target :: int
  message :: "string option"

datatype outcome =
    is_Success: Success string string
  | is_NewMatch: NewMatch response_data
  | is_AlreadyFound: AlreadyFound response_data
  | is_NotInVocabulary: NotInVocabulary response_data
  | is_NotFromJumbleLetters: NotFromJumbleLetters response_data

text \<open>\<open>"{}".format(text)\<close>: the text itself, or \<open>None\<close> written out.\<close>

definition fmt :: "string option \<Rightarrow> string" where
  "fmt text = (case text of None \<Rightarrow> ''None'' | Some t \<Rightarrow> t)"

definition check :: "app \<Rightarrow> session \<Rightarrow> string option \<Rightarrow> error + session \<times> outcome" where
  "check a s text =
     (case jumble s of
        None \<Rightarrow> Inl KeyError
      | Some j \<Rightarrow>
         (let ms = get_matches s;
              in_jumble = bag_contains a j text;
              matched = WORDS_has a text
          in case target_count s of
               None \<Rightarrow> Inl KeyError
             | Some tc \<Rightarrow>
                (let quota = (tc \<le> int (length ms));
                     rd = \<lparr>result = False, redirect_url = False, r_matches = ms,
                           target = tc, message = None\<rparr>
                 in if quota then
                      Inr (s, Success
                        ''Congrats you solved it, press any character to continue!''
                        ''/success'')
                    else if matched \<and> in_jumble \<and> \<not> (text \<in> set ms) then
                      Inr (s\<lparr>matches := Some (ms @ [text])\<rparr>,
                           NewMatch (rd\<lparr>r_matches := ms @ [text], message := Some
                             (''Congrats you found the match: '' @ fmt text
                              @ ''. Clear the box to continue'')\<rparr>))
                    else if text \<in> set ms then
                      Inr (s, AlreadyFound
                        (rd\<lparr>message := Some (''You already found '' @ fmt text)\<rparr>))
                    else if \<not> matched then
                      Inr (s, NotInVocabulary
                        (rd\<lparr>message := Some (fmt text @ '' isn't in the list of words'')\<rparr>))
                    else if \<not> in_jumble then
                      Inr (s, NotFromJumbleLetters
                        (rd\<lparr>message := Some ([CHR 0x22] @ fmt text @ [CHR 0x22]
                           @ '' can't be made from the letters '' @ j)\<rparr>))
                    else Inl AssertionError)))"

text \<open>A sequence of submissions, each on the session the one before left.\<close>

fun submits :: "app \<Rightarrow> session \<Rightarrow> string option list \<Rightarrow> error + session" where
  "submits a s [] = Inr s"
| "submits a s (t # ts) =
     (case check a s t of Inl e \<Rightarrow> Inl e | Inr (s', out) \<Rightarrow> submits a s' ts)"

subsection \<open>A concrete instance\<close>

text \<open>
  Modelled from the spec: the function \<open>jumbled\<close> of \<open>src/jumble.py\<close>, which
  is missing. This is one behaviour the specification admits: the first \<open>count\<close>
  words (the count clamped to the number of words) joined in order, which is a
  permutation of their letters whatever the seed, and \<open>InvalidArgument\<close> for a count
  that is not positive.
\<close>

definition jumbled_first :: "string list \<Rightarrow> int \<Rightarrow> int option \<Rightarrow> error + string" where
  "jumbled_first strings n seed =
     (if n \<le> 0 then Inl InvalidArgument else Inr (concat (take (nat n) strings)))"

text \<open>
  The handlers' collaborators taken from the models above. The specification defines the
  containment query on strings only. This instance lets the query return on a missing
  candidate, with the parameter \<open>absent\<close> as its answer; that the call returns
  there is an assumption of the instance, which neither the module nor the specification
  settles. The instance serves to evaluate the handlers on examples.
\<close>

definition spec_app ::
  "bool \<Rightarrow> Vocab \<Rightarrow> int \<Rightarrow> int option \<Rightarrow>
   (string list \<Rightarrow> int \<Rightarrow> int option \<Rightarrow> error + string) \<Rightarrow> app" where
  "spec_app absent v n sd jf =
     \<lparr>WORDS_as_list = as_list v,
      WORDS_has = has v,
      bag_contains = (\<lambda>j text. case text of None \<Rightarrow> absent
                                 | Some w \<Rightarrow> contains (LetterBag j) w),
      jumbled = jf,
      SEED = sd,
      SUCCESS_AT_COUNT = n\<rparr>"

text \<open>
  The scenario of the specification: the vocabulary \<open>cat, dog, bird\<close>, threshold 2,
  seed 7. With \<open>jumbled_first\<close> the jumble is \<open>catdog\<close>.
\<close>

definition demo_app :: app where
  "demo_app = spec_app False (Vocab [''cat'', ''dog'', ''bird'']) 2 (Some 7) jumbled_first"

definition demo_start :: session where
  "demo_start = \<lparr>jumble = Some ''catdog'', target_count = Some 2, matches = Some []\<rparr>"

definition demo_one :: session where
  "demo_one = \<lparr>jumble = Some ''catdog'', target_count = Some 2,
                matches = Some [Some ''cat'']\<rparr>"

definition demo_full :: session where
  "demo_full = \<lparr>jumble = Some ''catdog'', target_count = Some 2,
                 matches = Some [Some ''cat'', Some ''dog'']\<rparr>"

text \<open>The same configuration with a success threshold of 0.\<close>

definition zero_app :: app where
  "zero_app = spec_app False (Vocab [''cat'', ''dog'', ''bird'']) 0 (Some 7) jumbled_first"

text \<open>The answers of \<open>check\<close> used in the examples.\<close>

definition demo_rd :: "string option list \<Rightarrow> string \<Rightarrow> response_data" where
  "demo_rd ms msg = \<lparr>result = False, redirect_url = False, r_matches = ms, target = 2,
                     message = Some msg\<rparr>"

subsection \<open>The invariant of a started session\<close>

text \<open>
  What holds of a session between requests once a game was started with jumble \<open>j\<close>
  and target \<open>tc\<close>: the list of matches is no longer than the target, has no
  duplicates, and each entry is accepted by the vocabulary and by the bag of the jumble.
\<close>

definition session_inv :: "app \<Rightarrow> string \<Rightarrow> int \<Rightarrow> session \<Rightarrow> bool" where
  "session_inv a j tc s \<longleftrightarrow>
     jumble s = Some j \<and> target_count s = Some tc
     \<and> int (length (get_matches s)) \<le> tc
     \<and> distinct (get_matches s)
     \<and> list_all (\<lambda>m. WORDS_has a m \<and> bag_contains a j m) (get_matches s)"

section \<open>Properties\<close>

lemmas demo_defs = demo_app_def spec_app_def demo_start_def demo_one_def demo_full_def
  get_matches_def has_def as_list_def jumbled_first_def

subsection \<open>The letter bag counts letters\<close>

lemma bag_count_add:
  "bag_count (bag_add c m) x = (if x = c then Suc (bag_count m x) else bag_count m x)"
  by (simp add: bag_count_def bag_add_def)

lemma bag_count_fold: "bag_count (fold bag_add s m) x = count_list s x + bag_count m x"
  by (induction s arbitrary: m) (simp_all add: bag_count_add)

lemma bag_count_empty: "bag_count Map.empty x = 0"
  by (simp add: bag_count_def)

lemma bag_count_LetterBag: "bag_count (LetterBag s) x = count_list s x"
  by (simp add: LetterBag_def bag_count_fold bag_count_empty)

text \<open>Containment is inclusion of the multisets of letters.\<close>

lemma contains_iff_subset_mset: "contains (LetterBag b) c \<longleftrightarrow> mset c \<subseteq># mset b"
proof -
  have "(\<forall>ch \<in> set c. count_list c ch \<le> count_list b ch)
        \<longleftrightarrow> (\<forall>ch. count_list c ch \<le> count_list b ch)"
    by (metis count_list_0_iff le0)
  then show ?thesis
    by (simp add: contains_def bag_count_LetterBag list_all_iff subseteq_mset_def count_mset)
qed

text \<open>
  Claim C5. For every bag string \<open>b\<close> and candidate \<open>c\<close>, the bag of \<open>b\<close>
  contains \<open>c\<close> if and only if every character of \<open>c\<close> occurs in \<open>c\<close> at most as
  often as in \<open>b\<close>. Repeated letters count: the bag of \<open>a\<close> does not contain
  \<open>aa\<close>. Containment is reflexive.
\<close>

theorem LetterBag_contains_counts:
  "(contains (LetterBag b) c \<longleftrightarrow> (\<forall>ch \<in> set c. count_list c ch \<le> count_list b ch))
   \<and> \<not> contains (LetterBag ''a'') ''aa''
   \<and> contains (LetterBag s) s"
  by (simp add: contains_def bag_count_LetterBag list_all_iff)

theorem LetterBag_contains_counts_witness:
  "contains (LetterBag ''ladder'') ''dare'' \<and> \<not> contains (LetterBag ''ladder'') ''dares''"
  using LetterBag_contains_counts [of "''ladder''" "''dare''"]
    LetterBag_contains_counts [of "''ladder''" "''dares''"]
  by simp

subsection \<open>The vocabulary\<close>

lemma set_dedup: "set (dedup xs) = set xs"
  by (induction xs rule: dedup.induct) auto

lemma distinct_dedup: "distinct (dedup xs)"
  by (induction xs rule: dedup.induct) (auto simp add: set_dedup)

lemma Vocab_construct_empty: "Vocab_construct [] = Inl ConfigurationError"
  by (simp add: Vocab_construct_def)

text \<open>
  Membership does not depend on how often a word occurs in the source list, and a
  vocabulary that was built is not empty.
\<close>

lemma Vocab_construct_has:
  assumes "Vocab_construct ws = Inr v"
  shows "has v (Some w) \<longleftrightarrow> w \<in> set ws" and "\<not> has v None"
    and "as_list v \<noteq> []" and "distinct (as_list v)"
  using assms
  by (auto simp add: Vocab_construct_def Let_def has_def as_list_def set_dedup distinct_dedup
      split: if_splits)

subsection \<open>The scenario, evaluated\<close>

lemma demo_index: "index demo_app new_session = Inr demo_start"
  by (simp add: index_def demo_defs seed_arg_def new_session_def)

lemma demo_check_cat:
  "check demo_app demo_start (Some ''cat'') =
     Inr (demo_one, NewMatch (demo_rd [Some ''cat'']
       ''Congrats you found the match: cat. Clear the box to continue''))"
  by (simp add: check_def Let_def demo_defs demo_rd_def fmt_def contains_def
      bag_count_LetterBag)

lemma demo_check_dog:
  "check demo_app demo_one (Some ''dog'') =
     Inr (demo_full, NewMatch (demo_rd [Some ''cat'', Some ''dog'']
       ''Congrats you found the match: dog. Clear the box to continue''))"
  by (simp add: check_def Let_def demo_defs demo_rd_def fmt_def contains_def
      bag_count_LetterBag)

lemma demo_check_again:
  "check demo_app demo_one (Some ''cat'') =
     Inr (demo_one, AlreadyFound (demo_rd [Some ''cat''] ''You already found cat''))"
  by (simp add: check_def Let_def demo_defs demo_rd_def fmt_def)

lemma demo_check_xyz:
  "check demo_app demo_one (Some ''xyz'') =
     Inr (demo_one, NotInVocabulary (demo_rd [Some ''cat'']
       ''xyz isn't in the list of words''))"
  by (simp add: check_def Let_def demo_defs demo_rd_def fmt_def)

lemma demo_check_bird:
  "check demo_app demo_one (Some ''bird'') =
     Inr (demo_one, NotFromJumbleLetters (demo_rd [Some ''cat'']
       ([CHR 0x22] @ ''bird'' @ [CHR 0x22] @ '' can't be made from the letters catdog'')))"
  by (simp add: check_def Let_def demo_defs demo_rd_def fmt_def contains_def
      bag_count_LetterBag)

lemma demo_submits:
  "submits demo_app demo_start [Some ''cat'', Some ''dog''] = Inr demo_full"
  by (simp add: demo_check_cat demo_check_dog)

lemma demo_run:
  "submits demo_app demo_start
     [Some ''cat'', Some ''cat'', None, Some ''bird'', Some ''dog'', Some ''xyz'']
   = Inr demo_full"
  by (simp add: check_def Let_def demo_defs contains_def bag_count_LetterBag)

subsection \<open>Submissions\<close>

text \<open>
  Claim C1. When the quota is already met, that is the session holds at least
  \<open>target_count\<close> matches, \<open>check\<close> answers with the success message and the
  redirect URL and leaves the session as it is, whatever the submitted text and whatever
  the vocabulary and the letter bag answer about it: two submissions on the same session
  get the same answer even with different texts and different collaborators.
\<close>

theorem check_quota_met:
  assumes "jumble s = Some j" and "target_count s = Some tc"
    and "tc \<le> int (length (get_matches s))"
  shows "check a s text = Inr (s, Success
           ''Congrats you solved it, press any character to continue!'' ''/success'')
         \<and> check a' s text' = check a s text"
  using assms by (simp add: check_def Let_def)

theorem check_quota_met_witness:
  "jumble demo_full = Some ''catdog'' \<and> target_count demo_full = Some 2
   \<and> 2 \<le> int (length (get_matches demo_full))
   \<and> check demo_app demo_full (Some ''bird'') = Inr (demo_full, Success
           ''Congrats you solved it, press any character to continue!'' ''/success'')
   \<and> check demo_app demo_full None = check demo_app demo_full (Some ''bird'')"
  using check_quota_met [of demo_full "''catdog''" 2 demo_app "Some ''bird''" demo_app None]
  by (simp add: demo_full_def get_matches_def)

text \<open>
  Claim C2. When the quota is not yet met, the vocabulary has the text, the bag of the
  jumble contains it and it is not among the matches, \<open>check\<close> appends exactly that
  text to the matches, stores the list in the session and answers with the new-match
  message for it.
\<close>

theorem check_new_match:
  assumes "jumble s = Some j" and "target_count s = Some tc"
    and "int (length (get_matches s)) < tc"
    and "WORDS_has a text" and "bag_contains a j text" and "text \<notin> set (get_matches s)"
  shows "check a s text =
           Inr (s\<lparr>matches := Some (get_matches s @ [text])\<rparr>,
                NewMatch \<lparr>result = False, redirect_url = False,
                  r_matches = get_matches s @ [text], target = tc,
                  message = Some (''Congrats you found the match: '' @ fmt text
                                  @ ''. Clear the box to continue'')\<rparr>)"
  using assms by (simp add: check_def Let_def)

theorem check_new_match_witness:
  "jumble demo_one = Some ''catdog'' \<and> target_count demo_one = Some 2
   \<and> int (length (get_matches demo_one)) < 2
   \<and> WORDS_has demo_app (Some ''dog'') \<and> bag_contains demo_app ''catdog'' (Some ''dog'')
   \<and> Some ''dog'' \<notin> set (get_matches demo_one)
   \<and> check demo_app demo_one (Some ''dog'') =
        Inr (demo_full,
             NewMatch \<lparr>result = False, redirect_url = False,
               r_matches = [Some ''cat'', Some ''dog''], target = 2,
               message = Some
                 ''Congrats you found the match: dog. Clear the box to continue''\<rparr>)"
  using check_new_match [of demo_one "''catdog''" 2 demo_app "Some ''dog''"]
  by (simp add: demo_defs fmt_def contains_def bag_count_LetterBag)

text \<open>
  Claim C3. The last branch of \<open>check\<close>, the failing assertion, is reached on no
  input. When the quota is not yet met, \<open>check\<close> answers, and its answer is exactly
  one of the four classifications (and so never the success answer): a new match when the vocabulary has the text, the bag
  contains it and it is not among the matches; already found when it is among the matches;
  not in the vocabulary when it is neither among the matches nor in the vocabulary; not
  from the jumble's letters when it is new and in the vocabulary but not in the bag.
\<close>

theorem check_classification:
  "check a s text \<noteq> Inl AssertionError
   \<and> (jumble s = Some j \<and> target_count s = Some tc \<and> int (length (get_matches s)) < tc
      \<longrightarrow> (\<exists>s' out. check a s text = Inr (s', out)
            \<and> length (filter id [is_NewMatch out, is_AlreadyFound out,
                 is_NotInVocabulary out, is_NotFromJumbleLetters out]) = 1
            \<and> (is_NewMatch out \<longleftrightarrow>
                 WORDS_has a text \<and> bag_contains a j text \<and> text \<notin> set (get_matches s))
            \<and> (is_AlreadyFound out \<longleftrightarrow> text \<in> set (get_matches s))
            \<and> (is_NotInVocabulary out \<longleftrightarrow>
                 text \<notin> set (get_matches s) \<and> \<not> WORDS_has a text)
            \<and> (is_NotFromJumbleLetters out \<longleftrightarrow>
                 text \<notin> set (get_matches s) \<and> WORDS_has a text
                 \<and> \<not> bag_contains a j text)))"
  by (auto simp add: check_def Let_def split: option.splits)

theorem check_classification_witness:
  "check demo_app demo_one (Some ''bird'') \<noteq> Inl AssertionError
   \<and> jumble demo_one = Some ''catdog'' \<and> target_count demo_one = Some 2
   \<and> int (length (get_matches demo_one)) < 2
   \<and> (\<exists>s' out. check demo_app demo_one (Some ''bird'') = Inr (s', out)
         \<and> is_NotFromJumbleLetters out \<and> \<not> is_NewMatch out \<and> \<not> is_AlreadyFound out
         \<and> \<not> is_NotInVocabulary out \<and> \<not> is_Success out)"
proof -
  have pre: "jumble demo_one = Some ''catdog'' \<and> target_count demo_one = Some 2
      \<and> int (length (get_matches demo_one)) < 2"
    by (simp add: demo_defs)
  have new: "Some ''bird'' \<notin> set (get_matches demo_one)"
    by (simp add: demo_defs)
  have voc: "WORDS_has demo_app (Some ''bird'')"
    by (simp add: demo_defs)
  have bag: "\<not> bag_contains demo_app ''catdog'' (Some ''bird'')"
    by (simp add: demo_defs contains_def bag_count_LetterBag)
  from check_classification [of demo_app demo_one "Some ''bird''" "''catdog''" 2]
    pre new voc bag
  obtain s' out where c: "check demo_app demo_one (Some ''bird'') = Inr (s', out)"
    and k: "is_NotFromJumbleLetters out" "\<not> is_NewMatch out" "\<not> is_AlreadyFound out"
      "\<not> is_NotInVocabulary out"
    by blast
  from k(1) have "\<not> is_Success out" by (cases out) simp_all
  with c k pre check_classification [of demo_app demo_one "Some ''bird''"]
  show ?thesis by blast
qed

text \<open>
  Claim C10. A submission that \<open>check\<close> answers never changes the jumble or the
  target count. When the answer is a new match, the session afterwards is the session
  before with the text appended to the matches; with every other answer (success, already
  found, not in the vocabulary, not from the jumble's letters) the session is unchanged.
\<close>

theorem check_frame:
  assumes "check a s text = Inr (s', out)"
  shows "jumble s' = jumble s \<and> target_count s' = target_count s
         \<and> (is_NewMatch out \<longrightarrow> s' = s\<lparr>matches := Some (get_matches s @ [text])\<rparr>)
         \<and> (\<not> is_NewMatch out \<longrightarrow> s' = s)"
  using assms by (auto simp add: check_def Let_def split: option.splits if_splits)

theorem check_frame_witness:
  "check demo_app demo_one (Some ''dog'') =
     Inr (demo_full, NewMatch (demo_rd [Some ''cat'', Some ''dog'']
       ''Congrats you found the match: dog. Clear the box to continue''))
   \<and> jumble demo_full = jumble demo_one \<and> target_count demo_full = target_count demo_one
   \<and> demo_full = demo_one\<lparr>matches := Some (get_matches demo_one @ [Some ''dog''])\<rparr>
   \<and> demo_full \<noteq> demo_one"
  using check_frame [OF demo_check_dog] demo_check_dog
  by (simp add: demo_full_def demo_one_def)

subsection \<open>Sessions reached from a start\<close>

lemma check_returns:
  assumes "jumble s = Some j" and "target_count s = Some tc"
  shows "\<exists>s' out. check a s t = Inr (s', out)"
  using assms by (simp add: check_def Let_def)

lemma check_session_inv:
  assumes "session_inv a j tc s" and "check a s t = Inr (s', out)"
  shows "session_inv a j tc s'
         \<and> (get_matches s' = get_matches s \<or> get_matches s' = get_matches s @ [t])"
  using assms
  by (auto simp add: session_inv_def check_def Let_def get_matches_def
      split: option.splits if_splits)

lemma submits_session_inv:
  assumes "session_inv a j tc s"
  shows "\<exists>s' xs. submits a s ts = Inr s' \<and> session_inv a j tc s'
           \<and> get_matches s' = get_matches s @ xs \<and> subseq xs ts"
  using assms
proof (induction ts arbitrary: s)
  case Nil
  then show ?case by simp
next
  case (Cons t ts)
  from Cons.prems have "jumble s = Some j" and "target_count s = Some tc"
    by (simp_all add: session_inv_def)
  then obtain s1 out where c: "check a s t = Inr (s1, out)"
    using check_returns by blast
  from check_session_inv [OF Cons.prems c]
  have inv1: "session_inv a j tc s1"
    and step: "get_matches s1 = get_matches s \<or> get_matches s1 = get_matches s @ [t]"
    by simp_all
  from Cons.IH [OF inv1] obtain s' xs where
    r: "submits a s1 ts = Inr s'" and i: "session_inv a j tc s'"
    and m: "get_matches s' = get_matches s1 @ xs" and sub: "subseq xs ts"
    by blast
  from step show ?case
  proof
    assume "get_matches s1 = get_matches s"
    with c r i m sub show ?thesis
      by (auto intro!: exI [of _ xs])
  next
    assume "get_matches s1 = get_matches s @ [t]"
    with c r i m sub show ?thesis
      by (auto intro!: exI [of _ "t # xs"])
  qed
qed

lemma index_session_inv:
  assumes "index a s0 = Inr s1"
  shows "\<exists>j tc. session_inv a j tc s1 \<and> get_matches s1 = [] \<and> 0 < tc
     \<and> tc = min (int (length (WORDS_as_list a))) (SUCCESS_AT_COUNT a)
     \<and> jumbled a (WORDS_as_list a) tc (seed_arg (SEED a)) = Inr j"
  using assms
  by (auto simp add: index_def Let_def session_inv_def get_matches_def
      split: sum.splits if_splits)

text \<open>
  With the vocabulary and the letter bag of the specification, the matches of a reached
  session are words of the vocabulary whose letters are a sub-multiset of the jumble's.
\<close>

lemma reachable_spec_matches:
  assumes "a = spec_app absent v n sd jf"
    and "index a s0 = Inr s1" and "submits a s1 ts = Inr s" and "jumble s = Some j"
    and "m \<in> set (get_matches s)"
  shows "\<exists>w. m = Some w \<and> w \<in> set (as_list v) \<and> mset w \<subseteq># mset j"
proof -
  from index_session_inv [OF assms(2)] obtain j' tc where "session_inv a j' tc s1"
    by blast
  from submits_session_inv [OF this, of ts] assms(3)
  have "session_inv a j' tc s" by auto
  with assms(4,5) have "WORDS_has a m" and "bag_contains a j m"
    by (auto simp add: session_inv_def list_all_iff)
  with assms(1) show ?thesis
    by (cases m) (simp_all add: spec_app_def has_def as_list_def contains_iff_subset_mset)
qed

text \<open>
  Claim C4. In every session reached by a start that rendered the page followed by any
  sequence of submissions, every submission is answered, the jumble and the target count
  are those of the start, and the list of matches is no longer than the target count, has
  no duplicates, holds only texts that the vocabulary has and the bag of the jumble
  contains, and lists them in the order in which they were submitted.
\<close>

theorem reachable_matches_invariant:
  assumes "index a s0 = Inr s1"
  shows "\<exists>s j tc. submits a s1 ts = Inr s
           \<and> jumble s = Some j \<and> jumble s1 = Some j
           \<and> target_count s = Some tc \<and> target_count s1 = Some tc
           \<and> int (length (get_matches s)) \<le> tc
           \<and> distinct (get_matches s)
           \<and> (\<forall>m \<in> set (get_matches s). WORDS_has a m \<and> bag_contains a j m)
           \<and> subseq (get_matches s) ts"
proof -
  from index_session_inv [OF assms] obtain j tc where
    i1: "session_inv a j tc s1" and e: "get_matches s1 = []"
    by blast
  from submits_session_inv [OF i1, of ts] e obtain s where
    "submits a s1 ts = Inr s" and "session_inv a j tc s" and "subseq (get_matches s) ts"
    by auto
  with i1 show ?thesis
    by (auto simp add: session_inv_def list_all_iff)
qed

theorem reachable_matches_invariant_witness:
  "index demo_app new_session = Inr demo_start
   \<and> (\<exists>s j tc. submits demo_app demo_start
            [Some ''cat'', Some ''cat'', None, Some ''bird'', Some ''dog'', Some ''xyz'']
            = Inr s
         \<and> jumble s = Some j \<and> jumble demo_start = Some j
         \<and> target_count s = Some tc \<and> target_count demo_start = Some tc
         \<and> int (length (get_matches s)) \<le> tc
         \<and> distinct (get_matches s)
         \<and> list_all (\<lambda>m. WORDS_has demo_app m \<and> bag_contains demo_app j m)
              (get_matches s)
         \<and> subseq (get_matches s)
              [Some ''cat'', Some ''cat'', None, Some ''bird'', Some ''dog'', Some ''xyz''])
   \<and> submits demo_app demo_start
        [Some ''cat'', Some ''cat'', None, Some ''bird'', Some ''dog'', Some ''xyz'']
      = Inr demo_full"
  using reachable_matches_invariant [OF demo_index,
      of "[Some ''cat'', Some ''cat'', None, Some ''bird'', Some ''dog'', Some ''xyz'']"]
    demo_index demo_run
  by (simp add: list_all_iff)

subsection \<open>Starting a game\<close>

text \<open>The start, with the assertions that always hold folded away.\<close>

lemma index_unfolded:
  "index a s = (let tc = min (int (length (WORDS_as_list a))) (SUCCESS_AT_COUNT a) in
      case jumbled a (WORDS_as_list a) tc (seed_arg (SEED a)) of
        Inl e \<Rightarrow> Inl (e, s\<lparr>target_count := Some tc\<rparr>)
      | Inr j \<Rightarrow> if 0 < tc
          then Inr (s\<lparr>target_count := Some tc, jumble := Some j, matches := Some []\<rparr>)
          else Inl (AssertionError,
                 s\<lparr>target_count := Some tc, jumble := Some j, matches := Some []\<rparr>))"
  by (simp add: index_def Let_def split: sum.splits)

text \<open>
  Claim C6, amended. Every start sets the session's target count to the minimum of the
  vocabulary size and the configured success threshold. This target is strictly greater
  than 0 whenever the vocabulary is non-empty and the configured threshold is positive,
  and it is positive in every start that renders the page. When the target is not
  positive the start raises; when it is positive and \<open>jumbled\<close> returns a jumble, the
  start renders the page on the session with this target, that jumble and no matches.
\<close>

theorem index_target_count:
  assumes "tc = min (int (length (WORDS_as_list a))) (SUCCESS_AT_COUNT a)"
  shows "target_count (session_after (index a s)) = Some tc
         \<and> (WORDS_as_list a \<noteq> [] \<and> 0 < SUCCESS_AT_COUNT a \<longrightarrow> 0 < tc)
         \<and> (index a s = Inr s' \<longrightarrow> 0 < tc)
         \<and> (\<not> 0 < tc \<longrightarrow> (\<exists>e s'. index a s = Inl (e, s')))
         \<and> (0 < tc \<and> jumbled a (WORDS_as_list a) tc (seed_arg (SEED a)) = Inr j
              \<longrightarrow> index a s = Inr (s\<lparr>target_count := Some tc, jumble := Some j,
                                      matches := Some []\<rparr>))"
  using assms
  by (auto simp add: index_def session_after_def Let_def split: sum.splits if_splits)

theorem index_target_count_witness:
  "2 = min (int (length (WORDS_as_list demo_app))) (SUCCESS_AT_COUNT demo_app)
   \<and> WORDS_as_list demo_app \<noteq> [] \<and> 0 < SUCCESS_AT_COUNT demo_app
   \<and> jumbled demo_app (WORDS_as_list demo_app) 2 (seed_arg (SEED demo_app)) = Inr ''catdog''
   \<and> index demo_app new_session = Inr demo_start
   \<and> target_count (session_after (index demo_app new_session)) = Some 2"
proof -
  have tc: "2 = min (int (length (WORDS_as_list demo_app))) (SUCCESS_AT_COUNT demo_app)"
    by (simp add: demo_defs)
  have pos: "WORDS_as_list demo_app \<noteq> [] \<and> 0 < SUCCESS_AT_COUNT demo_app"
    by (simp add: demo_defs)
  have j: "jumbled demo_app (WORDS_as_list demo_app) 2 (seed_arg (SEED demo_app))
             = Inr ''catdog''"
    by (simp add: demo_defs seed_arg_def)
  from index_target_count [OF tc, of new_session demo_start "''catdog''"]
  have "target_count (session_after (index demo_app new_session)) = Some 2"
    by blast
  with tc pos j demo_index show ?thesis
    by blast
qed

text \<open>
  With the vocabulary \<open>cat, dog, bird\<close> and a configured threshold of 0 the
  vocabulary is not empty and the target count that the start sets is 0. The start raises:
  \<open>InvalidArgument\<close> out of a \<open>jumbled\<close> that rejects the count, the assertion
  error of \<open>index\<close> after a \<open>jumbled\<close> that accepts it.
\<close>

theorem index_target_count_counterexample:
  "WORDS_as_list zero_app \<noteq> []
   \<and> target_count (session_after (index zero_app new_session)) = Some 0
   \<and> index zero_app new_session
       = Inl (InvalidArgument, \<lparr>jumble = None, target_count = Some 0, matches = None\<rparr>)
   \<and> index (zero_app\<lparr>jumbled := \<lambda>strings n seed. Inr (concat strings)\<rparr>) new_session
       = Inl (AssertionError,
           \<lparr>jumble = Some ''catdogbird'', target_count = Some 0, matches = Some []\<rparr>)"
  by (simp add: index_def session_after_def zero_app_def spec_app_def as_list_def
      jumbled_first_def new_session_def)

subsection \<open>The seed\<close>

lemma seed_arg_positive:
  "seed_arg S = (case S of None \<Rightarrow> None | Some n \<Rightarrow> if 0 < n then Some n else None)"
  by (auto simp add: seed_arg_def split: option.splits)

lemma SEED_of_cases:
  "SEED_of (Inr n) = Inr (Some n)"
  "SEED_of (Inl ValueError) = Inr None"
  "SEED_of (Inl TypeError) = Inl TypeError"
  by (simp_all add: SEED_of_def)

text \<open>
  Claim C8. The claim asks that \<open>jumbled\<close> be called with the configured seed exactly
  when the seed is a non-negative integer. For the configured seed 0, which the module's
  conversion keeps as the integer 0, \<open>index\<close> hands \<open>None\<close> to \<open>jumbled\<close>: a
  start with seed 0 is the start with no seed, shown also with a \<open>jumbled\<close> that
  reports whether it was given a seed.
\<close>

theorem seed_zero_unseeded:
  "SEED_of (Inr 0) = Inr (Some 0) \<and> seed_arg (Some 0) = None
   \<and> index (a\<lparr>SEED := Some 0\<rparr>) s = index (a\<lparr>SEED := None\<rparr>) s
   \<and> index (demo_app\<lparr>SEED := Some 0, jumbled := \<lambda>strings n seed.
          Inr (if seed = None then ''unseeded'' else ''seeded'')\<rparr>) new_session
       = Inr \<lparr>jumble = Some ''unseeded'', target_count = Some 2, matches = Some []\<rparr>
   \<and> index (demo_app\<lparr>SEED := Some 7, jumbled := \<lambda>strings n seed.
          Inr (if seed = None then ''unseeded'' else ''seeded'')\<rparr>) new_session
       = Inr \<lparr>jumble = Some ''seeded'', target_count = Some 2, matches = Some []\<rparr>"
  by (simp add: SEED_of_def seed_arg_def index_def demo_app_def spec_app_def as_list_def
      new_session_def)

subsection \<open>The keystroke query\<close>

text \<open>
  Claim C9. For every text and every pair of sessions, \<open>keep_going\<close> answers with
  what the vocabulary says about the text, the same in both sessions whatever their
  jumbles and matches, and returns the session it was given: it reads neither the jumble
  nor the matches and writes nothing.
\<close>

theorem keep_going_membership_only:
  "keep_going a s1 text = (s1, WORDS_has a text)
   \<and> keep_going a s2 text = (s2, WORDS_has a text)
   \<and> snd (keep_going a s1 text) = snd (keep_going a s2 text)
   \<and> matches (fst (keep_going a s1 text)) = matches s1"
  by (simp add: keep_going_def)

text \<open>With the vocabulary of the specification the answer is membership in the word list.\<close>

lemma keep_going_spec_vocab:
  "keep_going (spec_app absent v n sd jf) s (Some w) = (s, w \<in> set (as_list v))"
  "keep_going (spec_app absent v n sd jf) s None = (s, False)"
  by (simp_all add: keep_going_def spec_app_def has_def as_list_def)

end
